theory Spec2Isabelle
  imports Main "HOL-Library.Word"
begin

unbundle bit_operations_syntax

section \<open>Response status decoder\<close>

text \<open>
  \<^verbatim>\<open>ResponseCode\<close> and \<^verbatim>\<open>CommandCode\<close> are 32-bit unsigned integers. The error
  structs returned by \<^verbatim>\<open>DecodeResponseCode\<close> become the constructors of one datatype;
  the \<^verbatim>\<open>nil\<close> error is \<open>None\<close>. The \<^verbatim>\<open>Index\<close> fields are Go \<^verbatim>\<open>int\<close>s obtained
  from an unsigned 32-bit value, hence non-negative integers.
\<close>

type_synonym ResponseCode = "32 word"
type_synonym CommandCode = "32 word"

datatype tpm_error =
    TPM1Error CommandCode ResponseCode
  | TPMVendorError CommandCode ResponseCode
  | TPMWarning CommandCode ResponseCode
  | TPMError CommandCode ResponseCode
  | TPMParameterError CommandCode ResponseCode int
  | TPMSessionError CommandCode ResponseCode int
  | TPMHandleError CommandCode ResponseCode int

text \<open>
  Modelled from the spec: the constant \<^verbatim>\<open>Success\<close> is declared outside the given
  sources; the spec's decode table gives status \<^verbatim>\<open>0x00000000\<close> as success.
\<close>

definition Success :: ResponseCode where
  "Success = 0"

definition formatMask :: ResponseCode where
  "formatMask = push_bit 7 1"

definition fmt0ErrorCodeMask :: ResponseCode where
  "fmt0ErrorCodeMask = 0x7f"

definition fmt0VersionMask :: ResponseCode where
  "fmt0VersionMask = push_bit 8 1"

definition fmt0VendorMask :: ResponseCode where
  "fmt0VendorMask = push_bit 10 1"

definition fmt0SeverityMask :: ResponseCode where
  "fmt0SeverityMask = push_bit 11 1"

definition fmt1ErrorCodeMask :: ResponseCode where
  "fmt1ErrorCodeMask = 0x3f"

definition fmt1ParameterIndexMask :: ResponseCode where
  "fmt1ParameterIndexMask = 0xf00"

definition fmt1HandleOrSessionIndexMask :: ResponseCode where
  "fmt1HandleOrSessionIndexMask = 0x700"

definition fmt1ParameterMask :: ResponseCode where
  "fmt1ParameterMask = push_bit 6 1"

definition fmt1SessionMask :: ResponseCode where
  "fmt1SessionMask = push_bit 11 1"

definition fmt1IndexShift :: nat where
  "fmt1IndexShift = 8"

definition DecodeResponseCode :: "CommandCode \<Rightarrow> ResponseCode \<Rightarrow> tpm_error option" where
  "DecodeResponseCode command resp =
    (if resp = Success then None
     else if resp AND formatMask = 0 then
       (if resp AND fmt0VersionMask = 0 then Some (TPM1Error command resp)
        else if resp AND fmt0VendorMask > 0 then Some (TPMVendorError command resp)
        else if resp AND fmt0SeverityMask > 0 then
          Some (TPMWarning command (resp AND fmt0ErrorCodeMask))
        else Some (TPMError command (resp AND fmt0ErrorCodeMask)))
     else if resp AND fmt1ParameterMask > 0 then
       Some (TPMParameterError command (resp AND fmt1ErrorCodeMask)
               (uint (drop_bit fmt1IndexShift (resp AND fmt1ParameterIndexMask))))
     else if resp AND fmt1SessionMask > 0 then
       Some (TPMSessionError command (resp AND fmt1ErrorCodeMask)
               (uint (drop_bit fmt1IndexShift (resp AND fmt1HandleOrSessionIndexMask))))
     else
       Some (TPMHandleError command (resp AND fmt1ErrorCodeMask)
               (uint (drop_bit fmt1IndexShift (resp AND fmt1HandleOrSessionIndexMask)))))"

section \<open>The codec: data model\<close>

subsection \<open>Run-time types and values\<close>

text \<open>
  The codec is driven by Go's \<^verbatim>\<open>reflect\<close> package. A \<^verbatim>\<open>reflect.Type\<close> is modelled
  by a descriptor \<open>ty\<close>, a \<^verbatim>\<open>reflect.Value\<close> by a descriptor, the value it holds and
  the flag \<^verbatim>\<open>CanAddr\<close>.

  Every descriptor carries the type's name (empty for a type literal) and says whether
  the method set of the pointer to the type holds \<^verbatim>\<open>Marshal\<close> and \<^verbatim>\<open>Unmarshal\<close>
  (the type has a custom codec). A struct descriptor lists its fields (name, the value of
  the \<^verbatim>\<open>tpm2\<close> key of the field's tag, type) and says whether the struct implements
  \<^verbatim>\<open>Union\<close>; an interface descriptor gives its number of methods. Two Go types are
  identical exactly when their descriptors are equal.

  Restrictions of the model: descriptors are finite trees, so a type that refers to
  itself has no descriptor; all struct fields are exported (so \<^verbatim>\<open>CanSet\<close> is
  \<^verbatim>\<open>CanAddr\<close> and \<^verbatim>\<open>Interface\<close> never panics); values are trees, so two pointers or
  slices never share storage; \<^verbatim>\<open>int\<close> has 64 bits.
\<close>

type_synonym byte = "8 word"

datatype Kind =
    Invalid | Bool | Int | Int8 | Int16 | Int32 | Int64
  | Uint | Uint8 | Uint16 | Uint32 | Uint64 | Uintptr
  | Float32 | Float64 | Complex64 | Complex128
  | Array | Chan | Func | Interface | Map | Ptr | Slice | String | Struct | UnsafePointer

text \<open>
  Modelled from the spec: the implementations of \<^verbatim>\<open>Union.Select\<close> are outside the given
  sources. The spec describes \<^verbatim>\<open>Select\<close> as: given the value of the selector field,
  return the concrete type to use, or "no data"; an unresolvable selector value is an
  error. A struct that implements \<^verbatim>\<open>Union\<close> therefore carries a table from selector
  values to \<open>Some\<close> type or \<open>None\<close> for "no data"; a selector value outside the table
  is an error.
\<close>

datatype ty =
    TBasic string bool Kind
  | TPtr string ty
  | TSlice string bool ty
  | TStruct string bool "(nat \<times> ty option) list option" "(string \<times> string \<times> ty) list"
  | TInterface string nat

text \<open>
  A value of primitive kind is its bit pattern, read as an unsigned big-endian number
  (two's complement for signed integers, the IEEE bits for floating point; \<^verbatim>\<open>true\<close> is 1).
\<close>

datatype val =
    VPrim nat
  | VString string
  | VPtr "val option"
  | VSlice "val list option"
  | VStruct "val list"
  | VIface "(ty \<times> val) option"
  | VOpaque

datatype Value = Value ty val bool

fun Type :: "Value \<Rightarrow> ty" where
  "Type (Value t v a) = t"

fun CanAddr :: "Value \<Rightarrow> bool" where
  "CanAddr (Value t v a) = a"

fun kind :: "ty \<Rightarrow> Kind" where
  "kind (TBasic n c k) = k"
| "kind (TPtr n t) = Ptr"
| "kind (TSlice n c t) = Slice"
| "kind (TStruct n c u fs) = Struct"
| "kind (TInterface n m) = Interface"

definition PtrTo :: "ty \<Rightarrow> ty" where
  "PtrTo t = TPtr [] t"

fun Elem :: "ty \<Rightarrow> ty option" where
  "Elem (TPtr n t) = Some t"
| "Elem (TSlice n c t) = Some t"
| "Elem _ = None"

fun zeros :: "(string \<times> string \<times> ty) list \<Rightarrow> val list"
  and Zero :: "ty \<Rightarrow> val" where
  "zeros [] = []"
| "zeros ((n, tag, t) # fs) = Zero t # zeros fs"
| "Zero (TBasic n c k) = (if k = String then VString [] else
     if k \<in> {Array, Chan, Func, Map, UnsafePointer} then VOpaque else VPrim 0)"
| "Zero (TPtr n t) = VPtr None"
| "Zero (TSlice n c t) = VSlice None"
| "Zero (TStruct n c u fs) = VStruct (zeros fs)"
| "Zero (TInterface n m) = VIface None"

subsection \<open>Errors\<close>

text \<open>
  A Go \<^verbatim>\<open>error\<close> is a message, or a message wrapped around the error that caused it
  (\<^verbatim>\<open>fmt.Errorf("...: %v", err)\<close>; the formatted type and field names are left out of
  the message). A run-time panic is a result of its own, which no caller wraps.
\<close>

datatype error =
    Error string
  | Wrapped string error
  | EOF
  | ErrUnexpectedEOF
  | Panic string

fun Errorf :: "string \<Rightarrow> error \<Rightarrow> error" where
  "Errorf msg (Panic p) = Panic p"
| "Errorf msg e = Wrapped msg e"

fun isPanic :: "error \<Rightarrow> bool" where
  "isPanic (Panic p) = True"
| "isPanic _ = False"

subsection \<open>Writers and readers\<close>

text \<open>
  An \<^verbatim>\<open>io.Writer\<close> is either a \<^verbatim>\<open>bytes.Buffer\<close>, which appends and never fails, or a
  writer of the caller with a state of type \<open>'w\<close>, whose \<^verbatim>\<open>Write\<close> method is the
  parameter \<open>W\<close>: it returns the new state and the error, if any.
\<close>

datatype 'w Writer = BytesBuffer "byte list" | External 'w

type_synonym 'w write_fn = "'w \<Rightarrow> byte list \<Rightarrow> 'w \<times> error option"

fun Write :: "'w write_fn \<Rightarrow> 'w Writer \<Rightarrow> byte list \<Rightarrow> 'w Writer \<times> error option" where
  "Write W (BytesBuffer b) xs = (BytesBuffer (b @ xs), None)"
| "Write W (External w) xs = (case W w xs of (w', e) \<Rightarrow> (External w', e))"

text \<open>
  \<^verbatim>\<open>bytes.Buffer.WriteTo\<close>: an empty buffer makes no call of \<^verbatim>\<open>Write\<close>.
\<close>

definition WriteTo :: "'w write_fn \<Rightarrow> byte list \<Rightarrow> 'w Writer \<Rightarrow> 'w Writer \<times> error option" where
  "WriteTo W tmp buf = (if tmp = [] then (buf, None) else Write W buf tmp)"

text \<open>
  A reader is the list of the bytes it still holds: a \<^verbatim>\<open>bytes.Reader\<close>, or the view of
  one through \<^verbatim>\<open>io.LimitReader\<close>. \<^verbatim>\<open>io.ReadFull\<close> of \<open>n\<close> bytes returns them and the
  rest; it fails with \<^verbatim>\<open>io.EOF\<close> when \<open>n > 0\<close> and nothing is left, and with
  \<^verbatim>\<open>io.ErrUnexpectedEOF\<close> when fewer than \<open>n\<close> bytes are left.
\<close>

type_synonym Reader = "byte list"

definition ReadFull :: "Reader \<Rightarrow> nat \<Rightarrow> error + (byte list \<times> Reader)" where
  "ReadFull buf n =
     (if n \<le> length buf then Inr (take n buf, drop n buf)
      else if buf = [] then Inl EOF
      else Inl ErrUnexpectedEOF)"

definition LimitReader :: "Reader \<Rightarrow> nat \<Rightarrow> Reader" where
  "LimitReader buf n = take n buf"

subsection \<open>Fixed-width big-endian encoding (\<^verbatim>\<open>encoding/binary\<close>)\<close>

fun bigEndian :: "nat \<Rightarrow> nat \<Rightarrow> byte list" where
  "bigEndian 0 x = []"
| "bigEndian (Suc w) x = bigEndian w (x div 256) @ [of_nat x]"

fun fromBigEndian :: "byte list \<Rightarrow> nat" where
  "fromBigEndian bs = foldl (\<lambda>acc b. acc * 256 + unat b) 0 bs"

text \<open>The size in bytes of a value of fixed size (\<^verbatim>\<open>binary.Size\<close>), by kind.\<close>

fun dataSize :: "Kind \<Rightarrow> nat option" where
  "dataSize Bool = Some 1"
| "dataSize Int8 = Some 1"
| "dataSize Uint8 = Some 1"
| "dataSize Int16 = Some 2"
| "dataSize Uint16 = Some 2"
| "dataSize Int32 = Some 4"
| "dataSize Uint32 = Some 4"
| "dataSize Float32 = Some 4"
| "dataSize Int64 = Some 8"
| "dataSize Uint64 = Some 8"
| "dataSize Float64 = Some 8"
| "dataSize Complex64 = Some 8"
| "dataSize Complex128 = Some 16"
| "dataSize _ = None"

text \<open>
  \<^verbatim>\<open>binary.Write(buf, binary.BigEndian, data)\<close> for a value of primitive kind: one call
  of \<^verbatim>\<open>Write\<close> with the encoded bytes, or an error for a kind without a fixed size.
\<close>

fun encodePrim :: "Kind \<Rightarrow> val \<Rightarrow> byte list option" where
  "encodePrim k (VPrim x) =
     (case dataSize k of
        None \<Rightarrow> None
      | Some w \<Rightarrow> Some (if k = Bool then [if x = 0 then 0 else 1] else bigEndian w x))"
| "encodePrim k _ = None"

definition binaryWrite :: "'w write_fn \<Rightarrow> 'w Writer \<Rightarrow> Kind \<Rightarrow> val \<Rightarrow> 'w Writer \<times> error option" where
  "binaryWrite W buf k v =
     (case encodePrim k v of
        None \<Rightarrow> (buf, Some (Error ''binary.Write: invalid type''))
      | Some bs \<Rightarrow> Write W buf bs)"

definition binaryWriteUint16 :: "'w write_fn \<Rightarrow> 'w Writer \<Rightarrow> 16 word \<Rightarrow> 'w Writer \<times> error option" where
  "binaryWriteUint16 W buf x = Write W buf (bigEndian 2 (unat x))"

definition binaryWriteUint32 :: "'w write_fn \<Rightarrow> 'w Writer \<Rightarrow> 32 word \<Rightarrow> 'w Writer \<times> error option" where
  "binaryWriteUint32 W buf x = Write W buf (bigEndian 4 (unat x))"

text \<open>\<^verbatim>\<open>binary.Read(buf, binary.BigEndian, &data)\<close> for a destination of primitive kind.\<close>

definition decodePrim :: "Kind \<Rightarrow> byte list \<Rightarrow> val" where
  "decodePrim k bs =
     (if k = Bool then VPrim (if fromBigEndian bs = 0 then 0 else 1)
      else VPrim (fromBigEndian bs))"

definition binaryRead :: "Reader \<Rightarrow> Kind \<Rightarrow> error + (val \<times> Reader)" where
  "binaryRead buf k =
     (case dataSize k of
        None \<Rightarrow> Inl (Error ''binary.Read: invalid type'')
      | Some w \<Rightarrow>
          (case ReadFull buf w of
             Inl e \<Rightarrow> Inl e
           | Inr (bs, buf') \<Rightarrow> Inr (decodePrim k bs, buf')))"

definition binaryReadUint16 :: "Reader \<Rightarrow> error + (16 word \<times> Reader)" where
  "binaryReadUint16 buf =
     (case ReadFull buf 2 of
        Inl e \<Rightarrow> Inl e
      | Inr (bs, buf') \<Rightarrow> Inr (of_nat (fromBigEndian bs), buf'))"

definition binaryReadUint32 :: "Reader \<Rightarrow> error + (32 word \<times> Reader)" where
  "binaryReadUint32 buf =
     (case ReadFull buf 4 of
        Inl e \<Rightarrow> Inl e
      | Inr (bs, buf') \<Rightarrow> Inr (of_nat (fromBigEndian bs), buf'))"

subsection \<open>Reflection helpers\<close>

fun fieldsOf :: "ty \<Rightarrow> (string \<times> string \<times> ty) list" where
  "fieldsOf (TStruct n c u fs) = fs"
| "fieldsOf _ = []"

definition NumField :: "ty \<Rightarrow> nat" where
  "NumField t = length (fieldsOf t)"

text \<open>
  \<^verbatim>\<open>s.Field(i)\<close>: the field inherits the addressability of the struct. \<open>None\<close> stands
  for the panic of an index out of range, which the loops below exclude.
\<close>

fun Field :: "Value \<Rightarrow> nat \<Rightarrow> Value option" where
  "Field (Value (TStruct n c u fs) (VStruct vs) a) i =
     (if i < length fs \<and> i < length vs then Some (Value (snd (snd (fs ! i))) (vs ! i) a)
      else None)"
| "Field _ i = None"

fun setField :: "Value \<Rightarrow> nat \<Rightarrow> val \<Rightarrow> Value" where
  "setField (Value t (VStruct vs) a) i v = Value t (VStruct (vs[i := v])) a"
| "setField s i v = s"

text \<open>The tag of field \<open>i\<close>: \<^verbatim>\<open>t.Field(i).Tag.Get("tpm2")\<close>.\<close>

definition fieldTag :: "ty \<Rightarrow> nat \<Rightarrow> string" where
  "fieldTag t i = (if i < NumField t then fst (snd (fieldsOf t ! i)) else [])"

text \<open>
  \<^verbatim>\<open>s.FieldByName(name)\<close> among the struct's own fields (fields promoted from embedded
  structs are not modelled); \<open>None\<close> is the invalid \<^verbatim>\<open>Value\<close> of a missing field.
\<close>

fun findField :: "string \<Rightarrow> (string \<times> string \<times> ty) list \<Rightarrow> nat \<Rightarrow> nat option" where
  "findField name [] i = None"
| "findField name ((n, tag, t) # fs) i = (if n = name then Some i else findField name fs (Suc i))"

definition FieldByName :: "Value \<Rightarrow> string \<Rightarrow> Value option" where
  "FieldByName s name =
     (case findField name (fieldsOf (Type s)) 0 of
        None \<Rightarrow> None
      | Some i \<Rightarrow> Field s i)"

fun IsNil :: "Value \<Rightarrow> bool" where
  "IsNil (Value t (VPtr None) a) = True"
| "IsNil (Value t (VSlice None) a) = True"
| "IsNil (Value t (VIface None) a) = True"
| "IsNil _ = False"

fun Len :: "Value \<Rightarrow> nat" where
  "Len (Value t (VSlice (Some xs)) a) = length xs"
| "Len _ = 0"

text \<open>\<^verbatim>\<open>slice.Index(i)\<close>: an element of a slice is always addressable.\<close>

fun Index :: "Value \<Rightarrow> nat \<Rightarrow> Value option" where
  "Index (Value (TSlice n c t) (VSlice (Some xs)) a) i =
     (if i < length xs then Some (Value t (xs ! i) True) else None)"
| "Index _ i = None"

fun setIndex :: "Value \<Rightarrow> nat \<Rightarrow> val \<Rightarrow> Value" where
  "setIndex (Value t (VSlice (Some xs)) a) i v = Value t (VSlice (Some (xs[i := v]))) a"
| "setIndex s i v = s"

fun valOf :: "Value \<Rightarrow> val" where
  "valOf (Value t v a) = v"

text \<open>\<^verbatim>\<open>slice.Bytes()\<close> of a byte slice.\<close>

fun byteOf :: "val \<Rightarrow> byte" where
  "byteOf (VPrim x) = of_nat x"
| "byteOf _ = 0"

fun Bytes :: "Value \<Rightarrow> byte list" where
  "Bytes (Value t (VSlice (Some xs)) a) = map byteOf xs"
| "Bytes _ = []"

subsection \<open>Classification of types\<close>

definition rawBytesType :: ty where
  "rawBytesType = TSlice ''RawBytes'' False (TBasic ''uint8'' False Uint8)"

fun isValidUnionContainer :: "ty \<Rightarrow> bool" where
  "isValidUnionContainer t = (if kind t \<noteq> Struct then False else True)"

text \<open>
  \<^verbatim>\<open>t.Implements(unionType)\<close>: the struct descriptor carries a selection table.
\<close>

fun implementsUnion :: "ty \<Rightarrow> bool" where
  "implementsUnion (TStruct n c (Some tbl) fs) = True"
| "implementsUnion _ = False"

fun NumMethod :: "ty \<Rightarrow> nat" where
  "NumMethod (TInterface n m) = m"
| "NumMethod _ = 0"

definition isUnion :: "ty \<Rightarrow> bool" where
  "isUnion t =
     (if kind t \<noteq> Struct then False
      else if \<not> implementsUnion t then False
      else if NumField t \<noteq> 1 then False
      else if kind (snd (snd (fieldsOf t ! 0))) \<noteq> Interface then True
      else NumMethod (snd (snd (fieldsOf t ! 0))) = 0)"

definition isSizedBuffer :: "ty \<Rightarrow> bool" where
  "isSizedBuffer t =
     (if kind t \<noteq> Slice then False
      else (case Elem t of Some e \<Rightarrow> kind e = Uint8 | None \<Rightarrow> False))"

text \<open>
  Whether the method set of the pointer to a type that is not a pointer holds the custom
  codec. Pointer and interface types have no such methods.
\<close>

fun customCodec :: "ty \<Rightarrow> bool" where
  "customCodec (TBasic n c k) = c"
| "customCodec (TSlice n c t) = c"
| "customCodec (TStruct n c u fs) = c"
| "customCodec (TPtr n t) = False"
| "customCodec (TInterface n m) = False"

text \<open>
  \<^verbatim>\<open>hasCustomMarshallerImpl\<close>: a type of pointer kind is tested itself, and only the
  unnamed pointer type \<^verbatim>\<open>*T\<close> has the methods of \<^verbatim>\<open>T\<close>; any other type is
  tested through \<^verbatim>\<open>reflect.PtrTo\<close>.
\<close>

fun hasCustomMarshallerImpl :: "ty \<Rightarrow> bool" where
  "hasCustomMarshallerImpl (TPtr n t) = (n = [] \<and> customCodec t)"
| "hasCustomMarshallerImpl t = customCodec t"

text \<open>
  Modelled from the spec: \<^verbatim>\<open>Select\<close> of a union struct, by its table. A selector that
  is not of primitive kind, or whose value is not in the table, is unresolvable.
\<close>

fun Select :: "Value \<Rightarrow> Value \<Rightarrow> error + ty option" where
  "Select (Value (TStruct n c (Some tbl) fs) v a) (Value st (VPrim x) sa) =
     (case map_of tbl x of
        None \<Rightarrow> Inl (Error ''invalid selector value'')
      | Some r \<Rightarrow> Inr r)"
| "Select _ _ = Inl (Error ''invalid selector value'')"

subsection \<open>Field options and the traversal context\<close>

record muOptions =
  selector :: string
  sized :: bool
  raw :: bool

text \<open>\<^verbatim>\<open>strings.Split(s, ",")\<close>\<close>

fun Split :: "string \<Rightarrow> string list" where
  "Split [] = [[]]"
| "Split (c # cs) =
     (if c = CHR '','' then [] # Split cs
      else (case Split cs of p # ps \<Rightarrow> (c # p) # ps | [] \<Rightarrow> [[c]]))"

definition HasPrefix :: "string \<Rightarrow> string \<Rightarrow> bool" where
  "HasPrefix s prefix = (take (length prefix) s = prefix)"

definition noOptions :: muOptions where
  "noOptions = \<lparr>selector = [], sized = False, raw = False\<rparr>"

definition parseFieldOption :: "muOptions \<Rightarrow> string \<Rightarrow> muOptions" where
  "parseFieldOption opts part =
     (if HasPrefix part ''selector:'' then opts\<lparr>selector := drop 9 part\<rparr>
      else if part = ''sized'' then opts\<lparr>sized := True\<rparr>
      else if part = ''raw'' then opts\<lparr>raw := True\<rparr>
      else opts)"

definition parseFieldOptions :: "string \<Rightarrow> muOptions" where
  "parseFieldOptions s = foldl parseFieldOption noOptions (Split s)"

text \<open>
  \<^verbatim>\<open>muContext\<close>: the container is \<open>None\<close> for the invalid (zero) \<^verbatim>\<open>reflect.Value\<close>,
  the parent type is \<open>None\<close> for the nil \<^verbatim>\<open>reflect.Type\<close>.
\<close>

record muContext =
  depth :: int
  container :: "Value option"
  parentType :: "ty option"
  options :: muOptions

definition beginStructFieldCtx :: "muContext \<Rightarrow> Value \<Rightarrow> nat \<Rightarrow> muContext" where
  "beginStructFieldCtx ctx s i =
     \<lparr>depth = depth ctx, container = Some s, parentType = Some (Type s),
      options = parseFieldOptions (fieldTag (Type s) i)\<rparr>"

definition beginUnionDataCtx :: "muContext \<Rightarrow> Value \<Rightarrow> muContext" where
  "beginUnionDataCtx ctx u =
     \<lparr>depth = depth ctx, container = Some u, parentType = Some (Type u), options = noOptions\<rparr>"

definition beginSliceElemCtx :: "muContext \<Rightarrow> Value \<Rightarrow> muContext" where
  "beginSliceElemCtx ctx s =
     \<lparr>depth = depth ctx, container = Some s, parentType = Some (Type s), options = noOptions\<rparr>"

definition beginPtrElemCtx :: "muContext \<Rightarrow> Value \<Rightarrow> muContext" where
  "beginPtrElemCtx ctx p =
     \<lparr>depth = depth ctx, container = container ctx, parentType = Some (Type p),
      options = options ctx\<rparr>"

definition beginSizedStructCtx :: "muContext \<Rightarrow> Value \<Rightarrow> muContext" where
  "beginSizedStructCtx ctx p =
     \<lparr>depth = depth ctx, container = container ctx, parentType = Some (Type p),
      options = (options ctx)\<lparr>sized := False\<rparr>\<rparr>"

definition beginInterfaceElemCtx :: "muContext \<Rightarrow> Value \<Rightarrow> muContext" where
  "beginInterfaceElemCtx ctx i =
     \<lparr>depth = depth ctx, container = container ctx, parentType = Some (Type i),
      options = options ctx\<rparr>"

definition arrivedFromPointer :: "muContext \<Rightarrow> Value \<Rightarrow> bool" where
  "arrivedFromPointer ctx v = (parentType ctx = Some (PtrTo (Type v)))"

text \<open>
  The start of \<^verbatim>\<open>marshalValue\<close> and \<^verbatim>\<open>unmarshalValue\<close>: a nil context is replaced by
  a new one, any other context has its depth incremented.
\<close>

definition newContext :: muContext where
  "newContext = \<lparr>depth = 0, container = None, parentType = None, options = noOptions\<rparr>"

fun enterValue :: "muContext option \<Rightarrow> muContext" where
  "enterValue None = newContext"
| "enterValue (Some ctx) = ctx\<lparr>depth := depth ctx + 1\<rparr>"

section \<open>The marshal engine\<close>

text \<open>
  What the marshal engine takes from outside: the \<^verbatim>\<open>Write\<close> method of the caller's
  writer, \<^verbatim>\<open>reflect.Type.ConvertibleTo\<close> and \<^verbatim>\<open>reflect.Value.Convert\<close>, and the
  \<^verbatim>\<open>Marshal\<close> methods of the types with a custom codec.

  Modelled from the spec: the implementations of \<^verbatim>\<open>CustomMarshaller\<close> are outside the
  given sources; the spec says that such a type has its own marshal logic, bypassing the
  generic traversal. \<open>customMarshal E t v\<close> is the result of \<^verbatim>\<open>Marshal\<close> on a value
  \<open>v\<close> of type \<open>t\<close>: an error, or the bytes it writes, in one call of \<^verbatim>\<open>Write\<close>.
\<close>

record 'w Env =
  writerWrite :: "'w write_fn"
  ConvertibleTo :: "ty \<Rightarrow> ty \<Rightarrow> bool"
  Convert :: "Value \<Rightarrow> ty \<Rightarrow> val"
  customMarshal :: "ty \<Rightarrow> val \<Rightarrow> error + byte list"

definition callMarshal :: "'w Env \<Rightarrow> 'w Writer \<Rightarrow> ty \<Rightarrow> val \<Rightarrow> 'w Writer \<times> error option" where
  "callMarshal E buf t v =
     (case customMarshal E t v of
        Inl e \<Rightarrow> (buf, Some e)
      | Inr bs \<Rightarrow> Write (writerWrite E) buf bs)"

text \<open>\<^verbatim>\<open>if err != nil { return fmt.Errorf(msg, err) }\<close>, with the writer passed on.\<close>

fun onError :: "string \<Rightarrow> 'a \<times> error option \<Rightarrow> 'a \<times> error option" where
  "onError msg (x, Some e) = (x, Some (Errorf msg e))"
| "onError msg (x, None) = (x, None)"

text \<open>
  The data of a union struct, as \<^verbatim>\<open>marshalUnion\<close> takes it from the only field: the
  zero value of the selected type for a nil interface, the value held by the interface,
  or the field itself when its type is not an interface. \<open>None\<close> is for a value that
  does not have the shape of its type, which Go excludes.
\<close>

fun unionData :: "Value \<Rightarrow> ty \<Rightarrow> Value option" where
  "unionData (Value (TStruct n c u [(fname, tag, ft)]) (VStruct [f]) a) selectedType =
     (if kind ft = Interface then
        (case f of
           VIface None \<Rightarrow> Some (Value selectedType (Zero selectedType) False)
         | VIface (Some (dt, dv)) \<Rightarrow> Some (Value dt dv False)
         | _ \<Rightarrow> None)
      else Some (Value ft f a))"
| "unionData _ selectedType = None"

text \<open>The contents of a \<^verbatim>\<open>bytes.Buffer\<close>.\<close>

fun bufferBytes :: "'w Writer \<Rightarrow> byte list" where
  "bufferBytes (BytesBuffer b) = b"
| "bufferBytes (External w) = []"


subsection \<open>Termination of the marshal engine\<close>

text \<open>
  Every call descends in the type descriptor, except the call of \<^verbatim>\<open>marshalValue\<close> for
  a sized struct, which clears \<^verbatim>\<open>sized\<close>, and the loops, which count up to a bound.
\<close>

lemma size_field_nth:
  "i < length fs \<Longrightarrow> size (snd (snd (fs ! i))) < size (TStruct n c u fs)"
proof -
  assume "i < length fs"
  then have mem: "fs ! i \<in> set fs" by simp
  have "x \<in> set fs \<Longrightarrow>
      size (snd (snd x)) < Suc (size_list (size_prod (\<lambda>_. 0) (size_prod (\<lambda>_. 0) size)) fs)" for x
    by (induction fs) auto
  from this [OF mem] show ?thesis by simp
qed

lemma size_Field: "Field s i = Some f \<Longrightarrow> size (Type f) < size (Type s)"
  by (induction s i rule: Field.induct) (auto simp del: ty.size split: if_splits intro: size_field_nth)

lemma size_Index: "Index s i = Some e \<Longrightarrow> size (Type e) < size (Type s)"
  by (induction s i rule: Index.induct) (auto split: if_splits)

lemma size_map_of:
  "map_of tbl x = Some (Some t) \<Longrightarrow>
     size t < Suc (size_list (size_prod (\<lambda>_. 0) (size_option size)) tbl)"
  by (induction tbl) (auto split: if_splits)

lemma size_Select: "Select u sv = Inr (Some t) \<Longrightarrow> size t < size (Type u)"
  by (induction u sv rule: Select.induct) (auto split: option.splits dest: size_map_of)

fun marshal_measure where
  "marshal_measure (Inl (Inl (E, buf, v, ctx))) =
     (8 * size (Type v) + (if sized (options (enterValue ctx)) then 4 else 0) + 3, 0::nat)"
| "marshal_measure (Inl (Inr (Inl (E, buf, v, ctx)))) =
     (8 * size (Type v) + (if sized (options ctx) then 4 else 0) + 2, 0)"
| "marshal_measure (Inl (Inr (Inr (E, buf, v, ctx)))) = (8 * size (Type v) + 1, 0)"
| "marshal_measure (Inr (Inl (Inl (E, buf, v, ctx)))) =
     (8 * size (Type v) + (if sized (options ctx) then 4 else 0) + 2, 0)"
| "marshal_measure (Inr (Inl (Inr (E, buf, v, ctx, i)))) = (8 * size (Type v) + 1, NumField (Type v) - i)"
| "marshal_measure (Inr (Inr (Inl (E, buf, v, ctx)))) =
     (8 * size (Type v) + (if sized (options ctx) then 4 else 0) + 2, 0)"
| "marshal_measure (Inr (Inr (Inr (E, buf, v, ctx, i)))) = (8 * size (Type v) + 1, Len v - i)"

subsection \<open>The marshal functions\<close>

text \<open>
  Each function returns the writer as it leaves it and the error, if any: what was
  written before an error stays written. An argument of the variadic entry points is
  the pair of the dynamic type and the value of a non-nil \<^verbatim>\<open>interface{}\<close>;
  \<^verbatim>\<open>reflect.ValueOf\<close> of it is not addressable.
\<close>

function marshalValue :: "'w Env \<Rightarrow> 'w Writer \<Rightarrow> Value \<Rightarrow> muContext option \<Rightarrow> 'w Writer \<times> error option"
  and marshalPtr :: "'w Env \<Rightarrow> 'w Writer \<Rightarrow> Value \<Rightarrow> muContext \<Rightarrow> 'w Writer \<times> error option"
  and marshalUnion :: "'w Env \<Rightarrow> 'w Writer \<Rightarrow> Value \<Rightarrow> muContext \<Rightarrow> 'w Writer \<times> error option"
  and marshalStruct :: "'w Env \<Rightarrow> 'w Writer \<Rightarrow> Value \<Rightarrow> muContext \<Rightarrow> 'w Writer \<times> error option"
  and marshalFields :: "'w Env \<Rightarrow> 'w Writer \<Rightarrow> Value \<Rightarrow> muContext \<Rightarrow> nat \<Rightarrow> 'w Writer \<times> error option"
  and marshalSlice :: "'w Env \<Rightarrow> 'w Writer \<Rightarrow> Value \<Rightarrow> muContext \<Rightarrow> 'w Writer \<times> error option"
  and marshalElems :: "'w Env \<Rightarrow> 'w Writer \<Rightarrow> Value \<Rightarrow> muContext \<Rightarrow> nat \<Rightarrow> 'w Writer \<times> error option"
where
  "marshalValue E buf val ctx =
     (if hasCustomMarshallerImpl (Type val) then
        (if kind (Type val) \<noteq> Ptr \<and> \<not> CanAddr val then
           (buf, Some (Error ''cannot marshal non-addressable non-pointer type with custom marshaller''))
         else if kind (Type val) \<noteq> Ptr then
           onError ''cannot marshal type with custom marshaller''
             (callMarshal E buf (Type val) (valOf val))
         else if IsNil val then
           (buf, Some (Error ''cannot marshal nil pointer type with custom marshaller''))
         else
           (case (Elem (Type val), valOf val) of
              (Some t, VPtr (Some d)) \<Rightarrow>
                onError ''cannot marshal type with custom marshaller'' (callMarshal E buf t d)
            | _ \<Rightarrow> (buf, Some (Panic ''value does not match its type''))))
      else
        (case kind (Type val) of
           Ptr \<Rightarrow> onError ''cannot marshal pointer type'' (marshalPtr E buf val (enterValue ctx))
         | Struct \<Rightarrow> onError ''cannot marshal struct type'' (marshalStruct E buf val (enterValue ctx))
         | Slice \<Rightarrow> onError ''cannot marshal slice type'' (marshalSlice E buf val (enterValue ctx))
         | Array \<Rightarrow> (buf, Some (Error ''cannot marshal type: unsupported kind''))
         | Chan \<Rightarrow> (buf, Some (Error ''cannot marshal type: unsupported kind''))
         | Func \<Rightarrow> (buf, Some (Error ''cannot marshal type: unsupported kind''))
         | Interface \<Rightarrow> (buf, Some (Error ''cannot marshal type: unsupported kind''))
         | Map \<Rightarrow> (buf, Some (Error ''cannot marshal type: unsupported kind''))
         | UnsafePointer \<Rightarrow> (buf, Some (Error ''cannot marshal type: unsupported kind''))
         | _ \<Rightarrow>
             onError ''cannot marshal type: write to buffer failed''
               (binaryWrite (writerWrite E) buf (kind (Type val)) (valOf val))))"
| "marshalPtr E buf ptr ctx =
     (case ptr of
        Value (TPtr n t) (VPtr None) a \<Rightarrow>
          (if sized (options ctx) \<and> kind t = Struct then
             (fst (binaryWriteUint16 (writerWrite E) buf 0), None)
           else marshalValue E buf (Value t (Zero t) False) (Some (beginPtrElemCtx ctx ptr)))
      | Value (TPtr n t) (VPtr (Some d)) a \<Rightarrow>
          marshalValue E buf (Value t d True) (Some (beginPtrElemCtx ctx ptr))
      | _ \<Rightarrow> (buf, Some (Panic ''value does not match its type'')))"
| "marshalUnion E buf u ctx =
     (case container ctx of
        None \<Rightarrow> (buf, Some (Error ''not inside a container''))
      | Some c \<Rightarrow>
          if \<not> isValidUnionContainer (Type c) then
            (buf, Some (Error ''not inside a valid union container''))
          else if selector (options ctx) = [] then
            (buf, Some (Error ''no selector member defined in container''))
          else
            (case FieldByName c (selector (options ctx)) of
               None \<Rightarrow> (buf, Some (Error ''invalid selector member name''))
             | Some selectorVal \<Rightarrow>
                 (case Select u selectorVal of
                    Inl err \<Rightarrow> (buf, Some (Errorf ''cannot select union data type'' err))
                  | Inr None \<Rightarrow> (buf, None)
                  | Inr (Some selectedType) \<Rightarrow>
                      (case unionData u selectedType of
                         None \<Rightarrow> (buf, Some (Panic ''value does not match its type''))
                       | Some d \<Rightarrow>
                           if Type d \<noteq> selectedType then
                             (if \<not> ConvertibleTo E (Type d) selectedType then
                                (buf, Some (Error ''data has incorrect type''))
                              else
                                marshalValue E buf (Value selectedType (Convert E d selectedType) False)
                                  (Some (beginUnionDataCtx ctx u)))
                           else marshalValue E buf d (Some (beginUnionDataCtx ctx u))))))"
| "marshalStruct E buf s ctx =
     (if sized (options ctx) \<and> isUnion (Type s) then
        (buf, Some (Error ''cannot be both sized and a union''))
      else if sized (options ctx) \<and> \<not> arrivedFromPointer ctx s then
        (case container ctx of
           None \<Rightarrow> (buf, Some (Panic ''call of reflect.Value.Type on zero Value''))
         | Some c \<Rightarrow>
             (buf, Some (Error ''sized struct inside container is not referenced via a pointer'')))
      else if sized (options ctx) then
        (case marshalValue E (BytesBuffer []) s (Some (beginSizedStructCtx ctx s)) of
           (tmpBuf, Some err) \<Rightarrow> (buf, Some (Errorf ''cannot marshal sized struct'' err))
         | (tmpBuf, None) \<Rightarrow>
             (case binaryWriteUint16 (writerWrite E) buf (of_nat (length (bufferBytes tmpBuf))) of
                (buf', Some err) \<Rightarrow>
                  (buf', Some (Errorf ''cannot write size of sized struct to output buffer'' err))
              | (buf', None) \<Rightarrow>
                  onError ''cannot write marshalled sized struct to output buffer''
                    (WriteTo (writerWrite E) (bufferBytes tmpBuf) buf')))
      else if isUnion (Type s) then
        onError ''error marshalling union struct'' (marshalUnion E buf s ctx)
      else marshalFields E buf s ctx 0)"
| "marshalFields E buf s ctx i =
     (if i < NumField (Type s) then
        (case Field s i of
           None \<Rightarrow> (buf, Some (Panic ''value does not match its type''))
         | Some f \<Rightarrow>
             (case marshalValue E buf f (Some (beginStructFieldCtx ctx s i)) of
                (buf', Some err) \<Rightarrow> (buf', Some (Errorf ''cannot marshal field'' err))
              | (buf', None) \<Rightarrow> marshalFields E buf' s ctx (i + 1)))
      else (buf, None))"
| "marshalSlice E buf sl ctx =
     (if Type sl = rawBytesType then
        onError ''cannot write byte slice directly to output buffer''
          (Write (writerWrite E) buf (Bytes sl))
      else
        (case
           (if raw (options ctx) then (buf, None)
            else if isSizedBuffer (Type sl) then
              onError ''cannot write size of sized buffer''
                (binaryWriteUint16 (writerWrite E) buf (of_nat (Len sl)))
            else
              onError ''cannot write size of list''
                (binaryWriteUint32 (writerWrite E) buf (of_nat (Len sl))))
         of
           (buf', Some err) \<Rightarrow> (buf', Some err)
         | (buf', None) \<Rightarrow> marshalElems E buf' sl ctx 0))"
| "marshalElems E buf sl ctx i =
     (if i < Len sl then
        (case Index sl i of
           None \<Rightarrow> (buf, Some (Panic ''value does not match its type''))
         | Some e \<Rightarrow>
             (case marshalValue E buf e (Some (beginSliceElemCtx ctx sl)) of
                (buf', Some err) \<Rightarrow> (buf', Some (Errorf ''cannot marshal value at index'' err))
              | (buf', None) \<Rightarrow> marshalElems E buf' sl ctx (i + 1)))
      else (buf, None))"
  by pat_completeness auto


termination
  apply (relation "inv_image (less_than <*lex*> less_than) marshal_measure")
  subgoal by (rule wf_inv_image, rule wf_lex_prod, rule wf_less_than, rule wf_less_than)
  subgoal by simp
  subgoal by simp
  subgoal by simp
  subgoal by (simp add: beginPtrElemCtx_def)
  subgoal by (simp add: beginPtrElemCtx_def)
  subgoal by (auto dest: size_Select simp: beginUnionDataCtx_def noOptions_def)
  subgoal by (auto dest: size_Select simp: beginUnionDataCtx_def noOptions_def)
  subgoal by (simp add: beginSizedStructCtx_def)
  subgoal by simp
  subgoal by simp
  subgoal by (auto dest: size_Field simp: beginStructFieldCtx_def)
  subgoal by auto
  subgoal by simp
  subgoal by (auto dest: size_Index simp: beginSliceElemCtx_def noOptions_def)
  subgoal by auto
  done

fun MarshalToWriter :: "'w Env \<Rightarrow> 'w Writer \<Rightarrow> (ty \<times> val) list \<Rightarrow> 'w Writer \<times> error option" where
  "MarshalToWriter E buf [] = (buf, None)"
| "MarshalToWriter E buf ((t, v) # vals) =
     (case marshalValue E buf (Value t v False) None of
        (buf', Some err) \<Rightarrow> (buf', Some err)
      | (buf', None) \<Rightarrow> MarshalToWriter E buf' vals)"

definition MarshalToBytes :: "'w Env \<Rightarrow> (ty \<times> val) list \<Rightarrow> error + byte list" where
  "MarshalToBytes E vals =
     (case MarshalToWriter E (BytesBuffer []) vals of
        (buf, Some err) \<Rightarrow> Inl err
      | (buf, None) \<Rightarrow> Inr (bufferBytes buf))"

section \<open>The unmarshal engine\<close>

text \<open>
  Modelled from the spec: \<^verbatim>\<open>Unmarshal\<close> of a type with a custom codec is outside the
  given sources. \<open>CU t v buf\<close> is its result on a receiver \<open>v\<close> of type \<open>t\<close> and the
  reader \<open>buf\<close>: an error, or the new value of the receiver and the number of bytes read.

  Each function returns an error, or the reader as it leaves it and the new value of the
  destination. A destination that is not addressable is a copy; what is written through
  the pointers and slices it holds is shared with the original, so the new value is the
  original's as well.
\<close>

type_synonym unmarshal_fn = "ty \<Rightarrow> val \<Rightarrow> Reader \<Rightarrow> error + (val \<times> nat)"

definition callUnmarshal :: "unmarshal_fn \<Rightarrow> Reader \<Rightarrow> ty \<Rightarrow> val \<Rightarrow> error + (Reader \<times> val)" where
  "callUnmarshal CU buf t v =
     (case CU t v buf of
        Inl e \<Rightarrow> Inl e
      | Inr (v', n) \<Rightarrow> Inr (drop n buf, v'))"

text \<open>\<^verbatim>\<open>if err != nil { return fmt.Errorf(msg, err) }\<close>\<close>

fun onErr :: "string \<Rightarrow> error + 'a \<Rightarrow> error + 'a" where
  "onErr msg (Inl e) = Inl (Errorf msg e)"
| "onErr msg (Inr x) = Inr x"

text \<open>
  \<^verbatim>\<open>makeSizedStructReader\<close> returns the reader it was given, advanced past the size,
  and the new reader: \<open>None\<close> for nil, or the view of the next \<open>size\<close> bytes.
\<close>

definition makeSizedStructReader :: "Reader \<Rightarrow> error + (Reader \<times> Reader option)" where
  "makeSizedStructReader buf =
     (case binaryReadUint16 buf of
        Inl err \<Rightarrow> Inl (Errorf ''cannot read size of sized struct'' err)
      | Inr (sz, buf') \<Rightarrow> Inr (buf', if sz = 0 then None else Some (LimitReader buf' (unat sz))))"

text \<open>
  What is left of a reader after a \<^verbatim>\<open>LimitReader\<close> on it went from \<open>srcBuf\<close> to
  \<open>srcBuf'\<close>: the bytes read through the view are gone from the reader under it.
\<close>

definition afterLimitReader :: "Reader \<Rightarrow> Reader \<Rightarrow> Reader \<Rightarrow> Reader" where
  "afterLimitReader buf srcBuf srcBuf' = drop (length srcBuf - length srcBuf') buf"

text \<open>
  The destination of the data of a union struct, as \<^verbatim>\<open>unmarshalUnion\<close> takes it from the
  only field: a new value of the selected type for a nil interface (which must be
  settable), the value held by the interface, or the field itself. \<open>storeUnionData\<close> is
  the union struct after decoding into that destination.
\<close>

fun unmarshalUnionData :: "Value \<Rightarrow> ty \<Rightarrow> error + Value" where
  "unmarshalUnionData (Value (TStruct n c u [(fname, tag, ft)]) (VStruct [f]) a) selectedType =
     (if kind ft = Interface then
        (case f of
           VIface None \<Rightarrow>
             if \<not> a then Inl (Error ''cannot set data'')
             else Inr (Value selectedType (Zero selectedType) True)
         | VIface (Some (dt, dv)) \<Rightarrow> Inr (Value dt dv False)
         | _ \<Rightarrow> Inl (Panic ''value does not match its type''))
      else Inr (Value ft f a))"
| "unmarshalUnionData _ selectedType = Inl (Panic ''value does not match its type'')"

definition storeUnionData :: "Value \<Rightarrow> Value \<Rightarrow> val \<Rightarrow> val" where
  "storeUnionData u d v =
     (if kind (snd (snd (fieldsOf (Type u) ! 0))) = Interface then VStruct [VIface (Some (Type d, v))]
      else VStruct [v])"

text \<open>\<^verbatim>\<open>slice.Set(reflect.MakeSlice(slice.Type(), l, l))\<close>\<close>

fun MakeSlice :: "Value \<Rightarrow> nat \<Rightarrow> Value" where
  "MakeSlice (Value t v a) l =
     Value t (VSlice (Some (replicate l (case Elem t of Some e \<Rightarrow> Zero e | None \<Rightarrow> VOpaque)))) a"

subsection \<open>Termination of the unmarshal engine\<close>

text \<open>
  A call descends in the type descriptor of the destination or, for the value an
  interface already holds, in the destination itself; the measure adds the size of the
  type to the sizes of the dynamic types held in the value.
\<close>

fun dynsize :: "val \<Rightarrow> nat" where
  "dynsize (VPrim x) = 0"
| "dynsize (VString s) = 0"
| "dynsize (VPtr None) = 0"
| "dynsize (VPtr (Some v)) = dynsize v"
| "dynsize (VSlice None) = 0"
| "dynsize (VSlice (Some xs)) = sum_list (map dynsize xs)"
| "dynsize (VStruct vs) = sum_list (map dynsize vs)"
| "dynsize (VIface None) = 0"
| "dynsize (VIface (Some (t, v))) = Suc (size t + dynsize v)"
| "dynsize VOpaque = 0"

fun structVals :: "Value \<Rightarrow> val list" where
  "structVals (Value t (VStruct vs) a) = vs"
| "structVals _ = []"

fun sliceVals :: "Value \<Rightarrow> val list" where
  "sliceVals (Value t (VSlice (Some xs)) a) = xs"
| "sliceVals _ = []"

definition weight :: "Value \<Rightarrow> nat" where
  "weight v = Suc (size (Type v)) + dynsize (valOf v)"

definition fieldsWeight :: "Value \<Rightarrow> nat \<Rightarrow> nat" where
  "fieldsWeight s i =
     sum_list (map (\<lambda>f. Suc (Suc (size (snd (snd f))))) (drop i (fieldsOf (Type s))))
     + sum_list (map dynsize (drop i (structVals s)))"

definition elemsWeight :: "Value \<Rightarrow> nat \<Rightarrow> nat" where
  "elemsWeight s i =
     (case Elem (Type s) of None \<Rightarrow> 0 | Some t \<Rightarrow> Suc (size t))
     + sum_list (map dynsize (drop i (sliceVals s)))"

lemma dynsize_zeros: "sum_list (map dynsize (zeros fs)) = 0"
  and dynsize_Zero: "dynsize (Zero t) = 0"
  by (induction fs and t rule: zeros_Zero.induct) auto

lemma weight_ptr_elem:
  "weight (Value t (case p of None \<Rightarrow> Zero t | Some d \<Rightarrow> d) b) < weight (Value (TPtr n t) (VPtr p) a)"
  by (cases p) (auto simp: weight_def dynsize_Zero)

lemma weight_unionData:
  "Select u sv = Inr (Some selectedType) \<Longrightarrow> unmarshalUnionData u selectedType = Inr d \<Longrightarrow>
   weight d < weight u"
  apply (drule size_Select)
  apply (induction u selectedType rule: unmarshalUnionData.induct)
  apply (auto simp: weight_def dynsize_Zero split: if_splits val.splits option.splits)
  done

lemma fields_size_sum:
  "sum_list (map (\<lambda>f. Suc (Suc (size (snd (snd f))))) fs)
     \<le> size_list (size_prod (\<lambda>_. 0) (size_prod (\<lambda>_. 0) size)) fs"
  by (induction fs) auto

lemma fieldsWeight_0: "fieldsWeight s 0 \<le> weight s"
proof (cases s)
  case (Value t v a)
  have "sum_list (map (\<lambda>f. Suc (Suc (size (snd (snd f))))) (fieldsOf t)) \<le> size t"
    using fields_size_sum by (cases t) (auto intro: le_SucI trans_le_add2)
  moreover have "sum_list (map dynsize (structVals (Value t v a))) \<le> dynsize v"
    by (cases v) auto
  ultimately show ?thesis using Value by (simp add: fieldsWeight_def weight_def)
qed

lemma fieldsWeight_Field: "Field s i = Some f \<Longrightarrow> Suc (weight f) \<le> fieldsWeight s i"
  by (induction s i rule: Field.induct)
    (auto simp: fieldsWeight_def weight_def Cons_nth_drop_Suc [symmetric] split: if_splits)

lemma fieldsWeight_setField:
  "Field s i = Some f \<Longrightarrow> fieldsWeight (setField s i y) (Suc i) < fieldsWeight s i"
  by (induction s i rule: Field.induct)
    (auto simp: fieldsWeight_def Cons_nth_drop_Suc [symmetric] split: if_splits)

lemma elemsWeight_MakeSlice: "elemsWeight (MakeSlice sl l) 0 < weight sl"
proof (cases sl)
  case (Value t v a)
  then show ?thesis
    by (cases t) (auto simp: elemsWeight_def weight_def dynsize_Zero sum_list_replicate)
qed

lemma elemsWeight_0: "elemsWeight sl 0 < weight sl"
proof (cases sl)
  case (Value t v a)
  have "sum_list (map dynsize (sliceVals (Value t v a))) \<le> dynsize v"
    by (induction "Value t v a" rule: sliceVals.induct) auto
  moreover have "(case Elem t of None \<Rightarrow> 0 | Some e \<Rightarrow> Suc (size e)) < Suc (size t)"
    by (cases t) auto
  ultimately show ?thesis using Value by (simp add: elemsWeight_def weight_def)
qed

lemma elemsWeight_Index: "Index sl i = Some e \<Longrightarrow> weight e \<le> elemsWeight sl i"
  by (induction sl i rule: Index.induct)
    (auto simp: elemsWeight_def weight_def Cons_nth_drop_Suc [symmetric] split: if_splits)

lemma elemsWeight_setIndex:
  "Index sl i = Some e \<Longrightarrow> elemsWeight (setIndex sl i y) (Suc i) \<le> elemsWeight sl i"
  by (induction sl i rule: Index.induct)
    (auto simp: elemsWeight_def Cons_nth_drop_Suc [symmetric] split: if_splits)

lemma Len_setIndex: "Len (setIndex sl i y) = Len sl"
  by (induction sl i y rule: setIndex.induct) auto

fun unmarshal_measure where
  "unmarshal_measure (Inl (Inl (CU, buf, v, ctx))) = (8 * weight v + 3, 0::nat)"
| "unmarshal_measure (Inl (Inr (Inl (CU, buf, v, ctx)))) = (8 * weight v + 2, 0)"
| "unmarshal_measure (Inl (Inr (Inr (CU, buf, v, ctx)))) = (8 * weight v + 1, 0)"
| "unmarshal_measure (Inr (Inl (Inl (CU, buf, v, ctx)))) = (8 * weight v + 2, 0)"
| "unmarshal_measure (Inr (Inl (Inr (CU, buf, v, ctx, i)))) = (8 * fieldsWeight v i + 1, 0)"
| "unmarshal_measure (Inr (Inr (Inl (CU, buf, v, ctx)))) = (8 * weight v + 2, 0)"
| "unmarshal_measure (Inr (Inr (Inr (CU, buf, v, ctx, i)))) = (8 * elemsWeight v i + 4, Len v - i)"

subsection \<open>The unmarshal functions\<close>

function unmarshalValue :: "unmarshal_fn \<Rightarrow> Reader \<Rightarrow> Value \<Rightarrow> muContext option \<Rightarrow> error + (Reader \<times> val)"
  and unmarshalPtr :: "unmarshal_fn \<Rightarrow> Reader \<Rightarrow> Value \<Rightarrow> muContext \<Rightarrow> error + (Reader \<times> val)"
  and unmarshalUnion :: "unmarshal_fn \<Rightarrow> Reader \<Rightarrow> Value \<Rightarrow> muContext \<Rightarrow> error + (Reader \<times> val)"
  and unmarshalStruct :: "unmarshal_fn \<Rightarrow> Reader \<Rightarrow> Value \<Rightarrow> muContext \<Rightarrow> error + (Reader \<times> val)"
  and unmarshalFields :: "unmarshal_fn \<Rightarrow> Reader \<Rightarrow> Value \<Rightarrow> muContext \<Rightarrow> nat \<Rightarrow> error + (Reader \<times> val)"
  and unmarshalSlice :: "unmarshal_fn \<Rightarrow> Reader \<Rightarrow> Value \<Rightarrow> muContext \<Rightarrow> error + (Reader \<times> val)"
  and unmarshalElems :: "unmarshal_fn \<Rightarrow> Reader \<Rightarrow> Value \<Rightarrow> muContext \<Rightarrow> nat \<Rightarrow> error + (Reader \<times> val)"
where
  "unmarshalValue CU buf val ctx =
     (if hasCustomMarshallerImpl (Type val) then
        (if kind (Type val) \<noteq> Ptr \<and> \<not> CanAddr val then
           Inl (Error ''cannot unmarshal non-addressable non-pointer type with custom marshaller'')
         else if kind (Type val) \<noteq> Ptr then
           onErr ''cannot unmarshal type with custom marshaller''
             (callUnmarshal CU buf (Type val) (valOf val))
         else
           (case (Elem (Type val), valOf val) of
              (Some t, VPtr None) \<Rightarrow>
                if \<not> CanAddr val then
                  Inl (Panic ''reflect.Value.Set using unaddressable value'')
                else
                  (case onErr ''cannot unmarshal type with custom marshaller''
                          (callUnmarshal CU buf t (Zero t)) of
                     Inl err \<Rightarrow> Inl err
                   | Inr (buf', d) \<Rightarrow> Inr (buf', VPtr (Some d)))
            | (Some t, VPtr (Some d)) \<Rightarrow>
                (case onErr ''cannot unmarshal type with custom marshaller''
                        (callUnmarshal CU buf t d) of
                   Inl err \<Rightarrow> Inl err
                 | Inr (buf', d') \<Rightarrow> Inr (buf', VPtr (Some d')))
            | _ \<Rightarrow> Inl (Panic ''value does not match its type'')))
      else
        (case kind (Type val) of
           Ptr \<Rightarrow> onErr ''cannot unmarshal pointer type'' (unmarshalPtr CU buf val (enterValue ctx))
         | Struct \<Rightarrow> onErr ''cannot unmarshal struct type'' (unmarshalStruct CU buf val (enterValue ctx))
         | Slice \<Rightarrow> onErr ''cannot unmarshal slice type'' (unmarshalSlice CU buf val (enterValue ctx))
         | Array \<Rightarrow> Inl (Error ''cannot unmarshal type: unsupported kind'')
         | Chan \<Rightarrow> Inl (Error ''cannot unmarshal type: unsupported kind'')
         | Func \<Rightarrow> Inl (Error ''cannot unmarshal type: unsupported kind'')
         | Interface \<Rightarrow> Inl (Error ''cannot unmarshal type: unsupported kind'')
         | Map \<Rightarrow> Inl (Error ''cannot unmarshal type: unsupported kind'')
         | UnsafePointer \<Rightarrow> Inl (Error ''cannot unmarshal type: unsupported kind'')
         | _ \<Rightarrow>
             if \<not> CanAddr val then Inl (Error ''cannot unmarshal non-addressable type'')
             else
               (case binaryRead buf (kind (Type val)) of
                  Inl err \<Rightarrow> Inl (Errorf ''cannot unmarshal type: read from buffer failed'' err)
                | Inr (v, buf') \<Rightarrow> Inr (buf', v))))"
| "unmarshalPtr CU buf ptr ctx =
     (case ptr of
        Value (TPtr n t) (VPtr p) a \<Rightarrow>
          (case
             (if sized (options ctx) \<and> kind t = Struct then makeSizedStructReader buf
              else Inr (buf, Some buf))
           of
             Inl err \<Rightarrow> Inl err
           | Inr (buf', None) \<Rightarrow> Inr (buf', VPtr p)
           | Inr (buf', Some srcBuf) \<Rightarrow>
               (if p = None \<and> \<not> a then Inl (Error ''cannot set pointer'')
                else
                  (case unmarshalValue CU srcBuf
                          (Value t (case p of None \<Rightarrow> Zero t | Some d \<Rightarrow> d) True)
                          (Some (beginPtrElemCtx ctx ptr)) of
                     Inl err \<Rightarrow> Inl err
                   | Inr (srcBuf', d) \<Rightarrow>
                       Inr (if sized (options ctx) \<and> kind t = Struct
                            then afterLimitReader buf' srcBuf srcBuf' else srcBuf',
                            VPtr (Some d)))))
      | _ \<Rightarrow> Inl (Panic ''value does not match its type''))"
| "unmarshalUnion CU buf u ctx =
     (case container ctx of
        None \<Rightarrow> Inl (Error ''not inside a container'')
      | Some c \<Rightarrow>
          if \<not> isValidUnionContainer (Type c) then
            Inl (Error ''not inside a valid union container'')
          else if selector (options ctx) = [] then
            Inl (Error ''no selector member defined in container'')
          else
            (case FieldByName c (selector (options ctx)) of
               None \<Rightarrow> Inl (Error ''invalid selector member name'')
             | Some selectorVal \<Rightarrow>
                 (case Select u selectorVal of
                    Inl err \<Rightarrow> Inl (Errorf ''cannot select union data type'' err)
                  | Inr None \<Rightarrow> Inr (buf, valOf u)
                  | Inr (Some selectedType) \<Rightarrow>
                      (case unmarshalUnionData u selectedType of
                         Inl err \<Rightarrow> Inl err
                       | Inr d \<Rightarrow>
                           (case unmarshalValue CU buf d (Some (beginUnionDataCtx ctx u)) of
                              Inl err \<Rightarrow> Inl (Errorf ''cannot unmarshal data value'' err)
                            | Inr (buf', v) \<Rightarrow> Inr (buf', storeUnionData u d v))))))"
| "unmarshalStruct CU buf s ctx =
     (if sized (options ctx) \<and> \<not> arrivedFromPointer ctx s then
        (case container ctx of
           None \<Rightarrow> Inl (Panic ''call of reflect.Value.Type on zero Value'')
         | Some c \<Rightarrow>
             Inl (Error ''sized struct inside container is not referenced via a pointer''))
      else if isUnion (Type s) then
        onErr ''error unmarshalling union struct'' (unmarshalUnion CU buf s ctx)
      else unmarshalFields CU buf s ctx 0)"
| "unmarshalFields CU buf s ctx i =
     (if i < NumField (Type s) then
        (case Field s i of
           None \<Rightarrow> Inl (Panic ''value does not match its type'')
         | Some f \<Rightarrow>
             (case unmarshalValue CU buf f (Some (beginStructFieldCtx ctx s i)) of
                Inl err \<Rightarrow> Inl (Errorf ''cannot unmarshal field'' err)
              | Inr (buf', v) \<Rightarrow> unmarshalFields CU buf' (setField s i v) ctx (i + 1)))
      else Inr (buf, valOf s))"
| "unmarshalSlice CU buf sl ctx =
     (if Type sl = rawBytesType then
        (if IsNil sl then Inl (Error ''nil raw byte slice'')
         else
           (case ReadFull buf (Len sl) of
              Inl err \<Rightarrow> Inl (Errorf ''cannot read byte slice directly from input buffer'' err)
            | Inr (bs, buf') \<Rightarrow> Inr (buf', VSlice (Some (map (\<lambda>b. VPrim (unat b)) bs)))))
      else
        (case
           (if raw (options ctx) then
              (if IsNil sl then Inl (Error ''nil raw slice'') else Inr (0, buf))
            else if isSizedBuffer (Type sl) then
              (case binaryReadUint16 buf of
                 Inl err \<Rightarrow> Inl (Errorf ''cannot read size of sized buffer'' err)
               | Inr (tmp, buf') \<Rightarrow> Inr (unat tmp, buf'))
            else
              (case binaryReadUint32 buf of
                 Inl err \<Rightarrow> Inl (Errorf ''cannot read size of list'' err)
               | Inr (tmp, buf') \<Rightarrow> Inr (unat tmp, buf')))
         of
           Inl err \<Rightarrow> Inl err
         | Inr (l, buf') \<Rightarrow>
             (if IsNil sl then
                (if \<not> CanAddr sl then Inl (Error ''cannot set slice'')
                 else unmarshalElems CU buf' (MakeSlice sl l) ctx 0)
              else unmarshalElems CU buf' sl ctx 0)))"
| "unmarshalElems CU buf sl ctx i =
     (if i < Len sl then
        (case Index sl i of
           None \<Rightarrow> Inl (Panic ''value does not match its type'')
         | Some e \<Rightarrow>
             (case unmarshalValue CU buf e (Some (beginSliceElemCtx ctx sl)) of
                Inl err \<Rightarrow> Inl (Errorf ''cannot unmarshal value at index'' err)
              | Inr (buf', v) \<Rightarrow> unmarshalElems CU buf' (setIndex sl i v) ctx (i + 1)))
      else Inr (buf, valOf sl))"
  by pat_completeness auto

termination
  apply (relation "inv_image (less_than <*lex*> less_than) unmarshal_measure")
  subgoal by (rule wf_inv_image, rule wf_lex_prod, rule wf_less_than, rule wf_less_than)
  subgoal by simp
  subgoal by simp
  subgoal by simp
  subgoal for CU buf ptr ctx x1 x2 x3 n t p
    using weight_ptr_elem [of t p True n x3] by simp
  subgoal by (auto dest: weight_unionData)
  subgoal by simp
  subgoal for CU buf s ctx using fieldsWeight_0 [of s] by simp
  subgoal by (auto dest: fieldsWeight_Field)
  subgoal by (auto dest: fieldsWeight_setField)
  subgoal for CU buf sl ctx b l using elemsWeight_MakeSlice [of sl l] by simp
  subgoal for CU buf sl using elemsWeight_0 [of sl] by simp
  subgoal by (auto dest: elemsWeight_Index)
  subgoal premises p for CU buf sl ctx i e b x y
    using elemsWeight_setIndex [OF p(2), of y] p(1) by (auto simp: Len_setIndex)
  done

text \<open>
  The destinations are pointers; the result lists them after decoding. When a later
  destination fails, only the error is returned.
\<close>

fun UnmarshalFromReader :: "unmarshal_fn \<Rightarrow> Reader \<Rightarrow> (ty \<times> val) list \<Rightarrow> error + (Reader \<times> val list)" where
  "UnmarshalFromReader CU buf [] = Inr (buf, [])"
| "UnmarshalFromReader CU buf ((t, v) # vals) =
     (if kind t \<noteq> Ptr then Inl (Error ''cannot unmarshal to non-pointer type'')
      else if IsNil (Value t v False) then Inl (Error ''cannot unmarshal to nil pointer'')
      else
        (case (Elem t, v) of
           (Some te, VPtr (Some d)) \<Rightarrow>
             (case unmarshalValue CU buf (Value te d True) None of
                Inl err \<Rightarrow> Inl err
              | Inr (buf', d') \<Rightarrow>
                  (case UnmarshalFromReader CU buf' vals of
                     Inl err \<Rightarrow> Inl err
                   | Inr (buf'', ds) \<Rightarrow> Inr (buf'', VPtr (Some d') # ds)))
         | _ \<Rightarrow> Inl (Panic ''value does not match its type'')))"

definition UnmarshalFromBytes :: "unmarshal_fn \<Rightarrow> byte list \<Rightarrow> (ty \<times> val) list \<Rightarrow> error + (nat \<times> val list)" where
  "UnmarshalFromBytes CU b vals =
     (case UnmarshalFromReader CU b vals of
        Inl err \<Rightarrow> Inl err
      | Inr (buf, ds) \<Rightarrow> Inr (length b - length buf, ds))"

section \<open>Example inputs\<close>

text \<open>An environment for the examples: a writer that accepts everything, no conversions, no custom codecs.\<close>

definition exampleEnv :: "unit Env" where
  "exampleEnv = \<lparr>writerWrite = (\<lambda>w xs. (w, None)), ConvertibleTo = (\<lambda>a b. False),
     Convert = (\<lambda>v t. VOpaque), customMarshal = (\<lambda>t v. Inl (Error ''no custom codec''))\<rparr>"

definition uint8Type :: ty where
  "uint8Type = TBasic ''uint8'' False Uint8"

definition bytesStruct :: "nat list \<Rightarrow> Value" where
  "bytesStruct xs =
     Value (TStruct ''S'' False None [(''B'', [], TSlice [] False uint8Type)])
       (VStruct [VSlice (Some (map VPrim xs))]) True"

definition sizedCtx :: "ty \<Rightarrow> muContext" where
  "sizedCtx t = \<lparr>depth = 0, container = None, parentType = Some (PtrTo t),
     options = \<lparr>selector = [], sized = True, raw = False\<rparr>\<rparr>"

text \<open>A writer that fails on every write.\<close>

definition failingWriter :: "unit write_fn" where
  "failingWriter w xs = (w, Some (Error ''write failed''))"

section \<open>Properties of the response status decoder\<close>

lemmas status_masks =
  Success_def formatMask_def fmt0ErrorCodeMask_def fmt0VersionMask_def fmt0VendorMask_def
  fmt0SeverityMask_def fmt1ErrorCodeMask_def fmt1ParameterIndexMask_def
  fmt1HandleOrSessionIndexMask_def fmt1ParameterMask_def fmt1SessionMask_def
  fmt1IndexShift_def

lemma mask_test_bit: "(w AND push_bit n 1 = 0) = (\<not> bit w n)" for w :: ResponseCode
  by (simp add: bit_iff_and_push_bit_not_eq_0)

lemma mask_test_pos: "(0 < w AND push_bit n 1) = bit w n" for w :: ResponseCode
  by (simp add: word_gt_0 bit_iff_and_push_bit_not_eq_0)

lemma formatMask_test: "(resp AND formatMask = 0) = (\<not> bit resp 7)"
  unfolding formatMask_def by (rule mask_test_bit)

lemma fmt0VersionMask_test: "(resp AND fmt0VersionMask = 0) = (\<not> bit resp 8)"
  unfolding fmt0VersionMask_def by (rule mask_test_bit)

lemma fmt0VendorMask_test: "(0 < resp AND fmt0VendorMask) = bit resp 10"
  unfolding fmt0VendorMask_def by (rule mask_test_pos)

lemma fmt0SeverityMask_test: "(0 < resp AND fmt0SeverityMask) = bit resp 11"
  unfolding fmt0SeverityMask_def by (rule mask_test_pos)

lemma fmt1ParameterMask_test: "(0 < resp AND fmt1ParameterMask) = bit resp 6"
  unfolding fmt1ParameterMask_def by (rule mask_test_pos)

lemma fmt1SessionMask_test: "(0 < resp AND fmt1SessionMask) = bit resp 11"
  unfolding fmt1SessionMask_def by (rule mask_test_pos)

lemma fmt0ErrorCodeMask_field: "resp AND fmt0ErrorCodeMask = take_bit 7 resp"
  by (simp add: fmt0ErrorCodeMask_def take_bit_eq_mask mask_eq_exp_minus_1)

lemma fmt1ErrorCodeMask_field: "resp AND fmt1ErrorCodeMask = take_bit 6 resp"
  by (simp add: fmt1ErrorCodeMask_def take_bit_eq_mask mask_eq_exp_minus_1)

lemma fmt1ParameterIndex_field:
  "drop_bit fmt1IndexShift (resp AND fmt1ParameterIndexMask) = take_bit 4 (drop_bit 8 resp)"
proof -
  have "drop_bit 8 (0xf00 :: ResponseCode) = mask 4"
    by (simp add: mask_eq_exp_minus_1 drop_bit_eq_div)
  then show ?thesis
    by (simp add: fmt1IndexShift_def fmt1ParameterIndexMask_def drop_bit_and take_bit_eq_mask)
qed

lemma fmt1HandleOrSessionIndex_field:
  "drop_bit fmt1IndexShift (resp AND fmt1HandleOrSessionIndexMask) = take_bit 3 (drop_bit 8 resp)"
proof -
  have "drop_bit 8 (0x700 :: ResponseCode) = mask 3"
    by (simp add: mask_eq_exp_minus_1 drop_bit_eq_div)
  then show ?thesis
    by (simp add: fmt1IndexShift_def fmt1HandleOrSessionIndexMask_def drop_bit_and
        take_bit_eq_mask)
qed

lemmas status_fields =
  formatMask_test fmt0VersionMask_test fmt0VendorMask_test fmt0SeverityMask_test
  fmt1ParameterMask_test fmt1SessionMask_test fmt0ErrorCodeMask_field fmt1ErrorCodeMask_field
  fmt1ParameterIndex_field fmt1HandleOrSessionIndex_field

text \<open>
  Claim C5. A status equal to \<^verbatim>\<open>Success\<close> decodes to no error. Any other status with
  bit 7 clear is a format-0 code: with bit 8 clear it is a \<^verbatim>\<open>TPM1Error\<close> carrying the raw
  status; otherwise with bit 10 set a vendor error carrying the raw status; otherwise with
  bit 11 set a warning whose code is the low 7 bits of the status; otherwise a format-0
  error whose code is the low 7 bits.
\<close>

theorem DecodeResponseCode_format0:
  "DecodeResponseCode c Success = None \<and>
   (resp \<noteq> Success \<and> \<not> bit resp 7 \<longrightarrow>
      DecodeResponseCode c resp =
        Some (if \<not> bit resp 8 then TPM1Error c resp
              else if bit resp 10 then TPMVendorError c resp
              else if bit resp 11 then TPMWarning c (take_bit 7 resp)
              else TPMError c (take_bit 7 resp)))"
  unfolding DecodeResponseCode_def status_fields by simp

theorem DecodeResponseCode_format0_witness:
  "DecodeResponseCode 0x17A Success = None \<and>
   (0x001 \<noteq> Success \<and> \<not> bit (0x001 :: ResponseCode) 7) \<and>
   DecodeResponseCode 0x17A 0x001 = Some (TPM1Error 0x17A 0x001) \<and>
   (0x501 \<noteq> Success \<and> \<not> bit (0x501 :: ResponseCode) 7) \<and>
   DecodeResponseCode 0x17A 0x501 = Some (TPMVendorError 0x17A 0x501) \<and>
   (0x922 \<noteq> Success \<and> \<not> bit (0x922 :: ResponseCode) 7) \<and>
   DecodeResponseCode 0x17A 0x922 = Some (TPMWarning 0x17A 0x22) \<and>
   (0x101 \<noteq> Success \<and> \<not> bit (0x101 :: ResponseCode) 7) \<and>
   DecodeResponseCode 0x17A 0x101 = Some (TPMError 0x17A 0x01)"
  using DecodeResponseCode_format0 [of "0x17A" "0x001"]
    DecodeResponseCode_format0 [of "0x17A" "0x501"]
    DecodeResponseCode_format0 [of "0x17A" "0x922"]
    DecodeResponseCode_format0 [of "0x17A" "0x101"]
  by (simp add: Success_def)

text \<open>
  Claim C6. A status other than \<^verbatim>\<open>Success\<close> with bit 7 set is a format-1 code: with
  bit 6 set it is a parameter error whose index is the 4-bit field at bits 8 to 11;
  otherwise with bit 11 set a session error, and otherwise a handle error, whose index is
  the 3-bit field at bits 8 to 10. In all three cases the code is the low 6 bits.
\<close>

theorem DecodeResponseCode_format1:
  "resp \<noteq> Success \<Longrightarrow> bit resp 7 \<Longrightarrow>
   DecodeResponseCode c resp =
     Some (if bit resp 6 then
             TPMParameterError c (take_bit 6 resp) (uint (take_bit 4 (drop_bit 8 resp)))
           else if bit resp 11 then
             TPMSessionError c (take_bit 6 resp) (uint (take_bit 3 (drop_bit 8 resp)))
           else
             TPMHandleError c (take_bit 6 resp) (uint (take_bit 3 (drop_bit 8 resp))))"
  unfolding DecodeResponseCode_def status_fields by simp

theorem DecodeResponseCode_format1_witness:
  "((0xFD4::ResponseCode) \<noteq> Success \<and> bit (0xFD4 :: ResponseCode) 7) \<and>
   DecodeResponseCode 0x17A 0xFD4 = Some (TPMParameterError 0x17A 0x14 15) \<and>
   ((0xF94::ResponseCode) \<noteq> Success \<and> bit (0xF94 :: ResponseCode) 7) \<and>
   DecodeResponseCode 0x17A 0xF94 = Some (TPMSessionError 0x17A 0x14 7) \<and>
   ((0x794::ResponseCode) \<noteq> Success \<and> bit (0x794 :: ResponseCode) 7) \<and>
   DecodeResponseCode 0x17A 0x794 = Some (TPMHandleError 0x17A 0x14 7)"
  using DecodeResponseCode_format1 [of "0xFD4" "0x17A"]
    DecodeResponseCode_format1 [of "0xF94" "0x17A"]
    DecodeResponseCode_format1 [of "0x794" "0x17A"]
  by (simp add: Success_def)


text \<open>
  Claim C3, as stated: status \<^verbatim>\<open>0x00000194\<close> decodes to a parameter error with index 1
  and code \<^verbatim>\<open>0x14\<close>. Bit 6 of \<^verbatim>\<open>0x194\<close> is clear, so the decoder does not take
  the parameter branch.
\<close>

theorem DecodeResponseCode_0x194_not_parameter:
  "DecodeResponseCode 0x17A 0x194 \<noteq> Some (TPMParameterError 0x17A 0x14 1)"
  by (simp add: DecodeResponseCode_def status_masks)

text \<open>
  Claim C3, amended: for every command code, status \<^verbatim>\<open>0x00000194\<close> decodes to a handle
  error with index 1 and code \<^verbatim>\<open>0x14\<close>; the parameter error with index 1 and code
  \<^verbatim>\<open>0x14\<close> is the decoding of status \<^verbatim>\<open>0x000001D4\<close>, which has bit 6 set.
\<close>

theorem DecodeResponseCode_0x194:
  "DecodeResponseCode c 0x194 = Some (TPMHandleError c 0x14 1) \<and>
   DecodeResponseCode c 0x1D4 = Some (TPMParameterError c 0x14 1)"
  by (simp add: DecodeResponseCode_def status_masks)

text \<open>
  Claim C4, as stated: status \<^verbatim>\<open>0x00000814\<close> decodes to a session error with index 0
  and code \<^verbatim>\<open>0x14\<close>. Bit 7 of \<^verbatim>\<open>0x814\<close> is clear, so the status is a format-0 code.
\<close>

theorem DecodeResponseCode_0x814_not_session:
  "DecodeResponseCode 0x17A 0x814 \<noteq> Some (TPMSessionError 0x17A 0x14 0)"
  by (simp add: DecodeResponseCode_def status_masks)

text \<open>
  Claim C4, amended: for every command code, status \<^verbatim>\<open>0x00000814\<close> decodes to a
  \<^verbatim>\<open>TPM1Error\<close> carrying the raw status (bits 7 and 8 are clear); the session error with
  index 0 and code \<^verbatim>\<open>0x14\<close> is the decoding of status \<^verbatim>\<open>0x00000894\<close>, which has
  bits 7 and 11 set.
\<close>

theorem DecodeResponseCode_0x814:
  "DecodeResponseCode c 0x814 = Some (TPM1Error c 0x814) \<and>
   DecodeResponseCode c 0x894 = Some (TPMSessionError c 0x14 0)"
  by (simp add: DecodeResponseCode_def status_masks)

section \<open>Properties of the marshal engine\<close>

text \<open>
  The defining equations of the engines are unfolded by hand: as rewrite rules they
  apply to every call.
\<close>

declare marshalValue.simps [simp del] marshalPtr.simps [simp del] marshalUnion.simps [simp del]
  marshalStruct.simps [simp del] marshalFields.simps [simp del] marshalSlice.simps [simp del]
  marshalElems.simps [simp del]

declare unmarshalValue.simps [simp del] unmarshalPtr.simps [simp del]
  unmarshalUnion.simps [simp del] unmarshalStruct.simps [simp del]
  unmarshalFields.simps [simp del] unmarshalSlice.simps [simp del]
  unmarshalElems.simps [simp del]

lemma length_bigEndian [simp]: "length (bigEndian w x) = w"
  by (induction w arbitrary: x) auto

lemma dataSize_kind:
  "dataSize k = Some w \<Longrightarrow>
   k \<notin> {Ptr, Struct, Slice, Array, Chan, Func, Interface, Map, UnsafePointer}"
  by (cases k) auto

lemma marshalValue_prim:
  assumes "\<not> hasCustomMarshallerImpl t" and "encodePrim (kind t) v = Some bs"
  shows "marshalValue E (BytesBuffer b) (Value t v a) ctx = (BytesBuffer (b @ bs), None)"
proof -
  from assms(2) obtain w where "dataSize (kind t) = Some w"
    by (cases v) (auto split: option.splits)
  from dataSize_kind [OF this] assms show ?thesis
    by (cases "kind t") (simp_all add: marshalValue.simps binaryWrite_def)
qed

lemma marshalElems_fixed:
  assumes sl: "sl = Value (TSlice n c e) (VSlice (Some xs)) a"
    and each: "\<forall>j<length xs. \<forall>b. \<exists>bs. length bs = W \<and>
        marshalValue E (BytesBuffer b) (Value e (xs ! j) True) (Some (beginSliceElemCtx ctx sl))
          = (BytesBuffer (b @ bs), None)"
  shows "i \<le> length xs \<Longrightarrow> \<exists>bs. length bs = (length xs - i) * W \<and>
     marshalElems E (BytesBuffer b) sl ctx i = (BytesBuffer (b @ bs), None)"
proof (induction "length xs - i" arbitrary: i b)
  case 0
  then show ?case using sl by (simp add: marshalElems.simps)
next
  case (Suc k)
  then have i: "i < length xs" by simp
  from each i obtain bs where bs: "length bs = W"
    "marshalValue E (BytesBuffer b) (Value e (xs ! i) True) (Some (beginSliceElemCtx ctx sl))
       = (BytesBuffer (b @ bs), None)" by blast
  from Suc(2) i have "k = length xs - Suc i" by simp
  from Suc(1) [OF this, of "b @ bs"] i obtain cs where cs: "length cs = (length xs - Suc i) * W"
    "marshalElems E (BytesBuffer (b @ bs)) sl ctx (Suc i) = (BytesBuffer ((b @ bs) @ cs), None)"
    by auto
  have "length xs - i = Suc (length xs - Suc i)" using i by simp
  then have "length (bs @ cs) = (length xs - i) * W" using bs(1) cs(1) by simp
  moreover have "marshalElems E (BytesBuffer b) sl ctx i = (BytesBuffer (b @ bs @ cs), None)"
    using i bs(2) cs(2) sl by (subst marshalElems.simps) simp
  ultimately show ?case by blast
qed

lemma unat_of_nat_16: "unat (of_nat n :: 16 word) = n mod 65536"
  by (simp add: unat_of_nat)

lemma unat_of_nat_32: "unat (of_nat n :: 32 word) = n mod 4294967296"
  by (simp add: unat_of_nat)

text \<open>A byte slice on a \<^verbatim>\<open>bytes.Buffer\<close>: the 16-bit length, then the bytes.\<close>

lemma marshalElems_bytes:
  assumes sl: "sl = Value (TSlice n c e) (VSlice (Some (map VPrim xs))) a"
    and e: "kind e = Uint8" "\<not> customCodec e"
  shows "i \<le> length xs \<Longrightarrow>
     marshalElems E (BytesBuffer b) sl ctx i = (BytesBuffer (b @ map of_nat (drop i xs)), None)"
proof (induction "length xs - i" arbitrary: i b)
  case 0
  then show ?case using sl by (simp add: marshalElems.simps)
next
  case (Suc k)
  then have i: "i < length xs" by simp
  have nc: "\<not> hasCustomMarshallerImpl e" using e by (cases e) auto
  have el: "marshalValue E (BytesBuffer b) (Value e (VPrim (xs ! i)) True)
       (Some (beginSliceElemCtx ctx sl)) = (BytesBuffer (b @ [of_nat (xs ! i)]), None)"
    by (rule marshalValue_prim [OF nc]) (simp add: e)
  from Suc(2) i have "k = length xs - Suc i" by simp
  from Suc(1) [OF this, of "b @ [of_nat (xs ! i)]"] i
  have "marshalElems E (BytesBuffer (b @ [of_nat (xs ! i)])) sl ctx (Suc i)
      = (BytesBuffer ((b @ [of_nat (xs ! i)]) @ map of_nat (drop (Suc i) xs)), None)"
    by simp
  moreover have "drop i xs = xs ! i # drop (Suc i) xs" using i by (simp add: Cons_nth_drop_Suc)
  ultimately show ?case using i el sl by (subst marshalElems.simps) simp
qed

lemma marshalSlice_bytes:
  assumes t: "t = TSlice n c e" "kind e = Uint8" "\<not> customCodec e" "t \<noteq> rawBytesType"
    and raw: "\<not> raw (options ctx)"
  shows "marshalSlice E (BytesBuffer b) (Value t (VSlice (Some (map VPrim xs))) a) ctx
     = (BytesBuffer (b @ bigEndian 2 (length xs mod 65536) @ map of_nat xs), None)"
  using t raw
    marshalElems_bytes [OF refl t(2,3), of 0 xs E "b @ bigEndian 2 (length xs mod 65536)" n c a ctx]
  by (simp add: marshalSlice.simps isSizedBuffer_def binaryWriteUint16_def unat_of_nat_16
      del: bigEndian.simps)

lemma marshalSlice_bytes_nil:
  assumes t: "t = TSlice n c e" "kind e = Uint8" "t \<noteq> rawBytesType"
    and raw: "\<not> raw (options ctx)"
  shows "marshalSlice E (BytesBuffer b) (Value t (VSlice None) a) ctx
     = (BytesBuffer (b @ [0, 0]), None)"
  using t raw
  by (simp add: marshalSlice.simps isSizedBuffer_def binaryWriteUint16_def marshalElems.simps
      numeral_2_eq_2)

lemma marshalValue_Slice:
  "\<not> customCodec (TSlice n c e) \<Longrightarrow>
   marshalValue E buf (Value (TSlice n c e) v a) ctx =
     onError ''cannot marshal slice type'' (marshalSlice E buf (Value (TSlice n c e) v a) (enterValue ctx))"
  by (simp add: marshalValue.simps)

lemma marshalValue_Struct:
  "\<not> customCodec (TStruct n c u fs) \<Longrightarrow>
   marshalValue E buf (Value (TStruct n c u fs) v a) ctx =
     onError ''cannot marshal struct type''
       (marshalStruct E buf (Value (TStruct n c u fs) v a) (enterValue ctx))"
  by (simp add: marshalValue.simps)

lemma marshalValue_Ptr:
  "\<not> hasCustomMarshallerImpl (TPtr n t) \<Longrightarrow>
   marshalValue E buf (Value (TPtr n t) v a) ctx =
     onError ''cannot marshal pointer type''
       (marshalPtr E buf (Value (TPtr n t) v a) (enterValue ctx))"
  by (auto simp add: marshalValue.simps)

lemma options_newContext [simp]: "options newContext = noOptions"
  by (simp add: newContext_def)

lemma options_enterValue_Some [simp]: "options (enterValue (Some ctx)) = options ctx"
  by simp

lemma raw_noOptions [simp]: "raw noOptions = False" "sized noOptions = False"
  "selector noOptions = []"
  by (simp_all add: noOptions_def)

lemma marshalStruct_sized:
  assumes "sized (options ctx)" and "\<not> isUnion (Type s)" and "arrivedFromPointer ctx s"
    and "marshalValue E (BytesBuffer []) s (Some (beginSizedStructCtx ctx s))
           = (BytesBuffer payload, None)"
  shows "marshalStruct E (BytesBuffer b) s ctx
     = (BytesBuffer (b @ bigEndian 2 (length payload mod 65536) @ payload), None)"
  using assms
  by (simp add: marshalStruct.simps binaryWriteUint16_def unat_of_nat_16 WriteTo_def
      del: bigEndian.simps)

lemma fromBigEndian_bigEndian: "fromBigEndian (bigEndian w x) = x mod 256 ^ w"
proof (induction w arbitrary: x)
  case 0
  then show ?case by simp
next
  case (Suc w)
  have "fromBigEndian (bigEndian (Suc w) x) = fromBigEndian (bigEndian w (x div 256)) * 256 + x mod 256"
    by (simp add: unat_of_nat)
  also have "\<dots> = (x div 256) mod 256 ^ w * 256 + x mod 256"
    using Suc by simp
  also have "\<dots> = x mod 256 ^ Suc w"
    by (simp add: mod_mult2_eq)
  finally show ?case .
qed

lemma marshalValue_nil_sized_ptr:
  assumes "sized (options ctx)" and "kind t = Struct" and "\<not> hasCustomMarshallerImpl (TPtr n t)"
  shows "marshalValue E buf (Value (TPtr n t) (VPtr None) a) (Some ctx)
           = (fst (Write (writerWrite E) buf [0, 0]), None)"
  using assms
  by (simp add: marshalValue.simps marshalPtr.simps binaryWriteUint16_def numeral_2_eq_2)

lemma parseFieldOptions_sized [simp]:
  "parseFieldOptions ''sized'' = \<lparr>selector = [], sized = True, raw = False\<rparr>"
  by (simp add: parseFieldOptions_def parseFieldOption_def noOptions_def HasPrefix_def)

text \<open>
  Claim C9. A nil pointer to a struct is marshalled under the option \<^verbatim>\<open>sized\<close> by one
  write of two zero bytes; when that write fails, \<^verbatim>\<open>marshalValue\<close> still returns no
  error, and so does \<^verbatim>\<open>MarshalToWriter\<close> for a struct whose only field is such a
  pointer.
\<close>

theorem marshalPtr_discards_write_error:
  assumes "writerWrite E w [0, 0] = (w', Some err)"
    and "kind t = Struct" and "\<not> hasCustomMarshallerImpl (TPtr n t)"
  shows "(sized (options ctx) \<longrightarrow>
            marshalValue E (External w) (Value (TPtr n t) (VPtr None) a) (Some ctx)
              = (External w', None)) \<and>
         MarshalToWriter E (External w)
            [(TStruct sn False None [(fn, ''sized'', TPtr n t)], VStruct [VPtr None])]
              = (External w', None)"
proof -
  let ?s = "Value (TStruct sn False None [(fn, ''sized'', TPtr n t)]) (VStruct [VPtr None]) False"
  have a: "marshalValue E (External w) (Value (TPtr n t) (VPtr None) a) (Some c)
      = (External w', None)" if "sized (options c)" for c a
    using marshalValue_nil_sized_ptr [OF that assms(2,3), of E "External w" a] assms(1) by simp
  have "marshalFields E (External w) ?s newContext 0 = (External w', None)"
    apply (subst marshalFields.simps)
    apply (simp add: NumField_def)
    apply (subst a)
     apply (simp add: beginStructFieldCtx_def fieldTag_def NumField_def)
    apply (subst marshalFields.simps)
    apply (simp add: NumField_def)
    done
  then have "marshalValue E (External w) ?s None = (External w', None)"
    by (simp add: marshalValue.simps marshalStruct.simps newContext_def noOptions_def
        isUnion_def)
  then show ?thesis using a by simp
qed

theorem marshalPtr_discards_write_error_witness:
  "writerWrite \<lparr>writerWrite = failingWriter, ConvertibleTo = (\<lambda>a b. False),
       Convert = (\<lambda>v t. VOpaque), customMarshal = (\<lambda>t v. Inl (Error ''none''))\<rparr> () [0, 0]
     = ((), Some (Error ''write failed'')) \<and>
   marshalValue \<lparr>writerWrite = failingWriter, ConvertibleTo = (\<lambda>a b. False),
       Convert = (\<lambda>v t. VOpaque), customMarshal = (\<lambda>t v. Inl (Error ''none''))\<rparr>
     (External ()) (Value (TPtr [] (TStruct ''S'' False None [])) (VPtr None) False)
     (Some \<lparr>depth = 0, container = None, parentType = None,
            options = \<lparr>selector = [], sized = True, raw = False\<rparr>\<rparr>)
     = (External (), None) \<and>
   MarshalToWriter \<lparr>writerWrite = failingWriter, ConvertibleTo = (\<lambda>a b. False),
       Convert = (\<lambda>v t. VOpaque), customMarshal = (\<lambda>t v. Inl (Error ''none''))\<rparr>
     (External ())
     [(TStruct ''C'' False None [(''P'', ''sized'', TPtr [] (TStruct ''S'' False None []))],
       VStruct [VPtr None])]
     = (External (), None)"
  using marshalPtr_discards_write_error [of
      "\<lparr>writerWrite = failingWriter, ConvertibleTo = (\<lambda>a b. False),
         Convert = (\<lambda>v t. VOpaque), customMarshal = (\<lambda>t v. Inl (Error ''none''))\<rparr>"
      "()" "()" "Error ''write failed''" "TStruct ''S'' False None []" "[]"
      "\<lparr>depth = 0, container = None, parentType = None,
            options = \<lparr>selector = [], sized = True, raw = False\<rparr>\<rparr>" False "''C''" "''P''"]
  by (simp add: failingWriter_def)

lemma MarshalToBytes_single:
  "marshalValue E (BytesBuffer []) (Value t v False) None = (BytesBuffer bs, None) \<Longrightarrow>
   MarshalToBytes E [(t, v)] = Inr bs"
  by (simp add: MarshalToBytes_def)

lemma truncated_prefix_mismatch:
  "65536 \<le> n \<Longrightarrow> fromBigEndian (bigEndian 2 (n mod 65536)) \<noteq> n"
proof -
  assume n: "65536 \<le> n"
  have "fromBigEndian (bigEndian 2 (n mod 65536)) = n mod 65536"
    by (simp only: fromBigEndian_bigEndian) simp
  moreover have "n mod 65536 < 65536" by simp
  ultimately show ?thesis using n by linarith
qed

text \<open>
  Claim C10. A byte slice of length \<open>L \<ge> 2^16\<close> is marshalled without error as the two
  bytes of \<open>L mod 2^16\<close> followed by its \<open>L\<close> bytes, and a sized struct whose payload has
  \<open>L \<ge> 2^16\<close> bytes as the two bytes of \<open>L mod 2^16\<close> followed by the payload: the
  prefix differs from the number of bytes that follow.
\<close>

theorem length_prefix_wraps:
  "(t = TSlice n False e \<and> kind e = Uint8 \<and> \<not> customCodec e \<and> t \<noteq> rawBytesType \<and>
      65536 \<le> length xs \<longrightarrow>
      MarshalToBytes E [(t, VSlice (Some (map VPrim xs)))]
        = Inr (bigEndian 2 (length xs mod 65536) @ map of_nat xs) \<and>
      fromBigEndian (bigEndian 2 (length xs mod 65536)) \<noteq> length (map VPrim xs)) \<and>
   (sized (options ctx) \<and> \<not> isUnion (Type s) \<and> arrivedFromPointer ctx s \<and>
      marshalValue E (BytesBuffer []) s (Some (beginSizedStructCtx ctx s))
        = (BytesBuffer payload, None) \<and>
      65536 \<le> length payload \<longrightarrow>
      marshalStruct E (BytesBuffer b) s ctx
        = (BytesBuffer (b @ bigEndian 2 (length payload mod 65536) @ payload), None) \<and>
      fromBigEndian (bigEndian 2 (length payload mod 65536)) \<noteq> length payload)"
proof (intro conjI impI)
  assume h: "t = TSlice n False e \<and> kind e = Uint8 \<and> \<not> customCodec e \<and> t \<noteq> rawBytesType \<and>
      65536 \<le> length xs"
  then have "marshalSlice E (BytesBuffer []) (Value t (VSlice (Some (map VPrim xs))) False)
      (enterValue None) = (BytesBuffer ([] @ bigEndian 2 (length xs mod 65536) @ map of_nat xs), None)"
    by (intro marshalSlice_bytes) auto
  with h have "marshalValue E (BytesBuffer []) (Value t (VSlice (Some (map VPrim xs))) False) None
      = (BytesBuffer (bigEndian 2 (length xs mod 65536) @ map of_nat xs), None)"
    by (simp add: marshalValue_Slice del: bigEndian.simps)
  then show "MarshalToBytes E [(t, VSlice (Some (map VPrim xs)))]
        = Inr (bigEndian 2 (length xs mod 65536) @ map of_nat xs)"
    by (rule MarshalToBytes_single)
  from h show "fromBigEndian (bigEndian 2 (length xs mod 65536)) \<noteq> length (map VPrim xs)"
    using truncated_prefix_mismatch [of "length xs"] by simp
next
  assume h: "sized (options ctx) \<and> \<not> isUnion (Type s) \<and> arrivedFromPointer ctx s \<and>
      marshalValue E (BytesBuffer []) s (Some (beginSizedStructCtx ctx s))
        = (BytesBuffer payload, None) \<and>
      65536 \<le> length payload"
  then show "marshalStruct E (BytesBuffer b) s ctx
        = (BytesBuffer (b @ bigEndian 2 (length payload mod 65536) @ payload), None)"
    by (intro marshalStruct_sized) auto
  from h show "fromBigEndian (bigEndian 2 (length payload mod 65536)) \<noteq> length payload"
    using truncated_prefix_mismatch [of "length payload"] by simp
qed


lemma parseFieldOptions_empty [simp]: "parseFieldOptions [] = noOptions"
  by (simp add: parseFieldOptions_def parseFieldOption_def HasPrefix_def)

lemma marshalValue_bytesStruct:
  assumes "\<not> sized (options c)"
  shows "marshalValue E (BytesBuffer []) (bytesStruct xs) (Some c)
     = (BytesBuffer (bigEndian 2 (length xs mod 65536) @ map of_nat xs), None)"
proof -
  let ?t = "TSlice [] False uint8Type"
  let ?c = "beginStructFieldCtx (enterValue (Some c)) (bytesStruct xs) 0"
  have "marshalSlice E (BytesBuffer []) (Value ?t (VSlice (Some (map VPrim xs))) True)
      (enterValue (Some ?c)) = (BytesBuffer ([] @ bigEndian 2 (length xs mod 65536) @ map of_nat xs), None)"
    by (rule marshalSlice_bytes [of _ "[]" False uint8Type])
      (simp_all add: uint8Type_def rawBytesType_def beginStructFieldCtx_def fieldTag_def
        NumField_def bytesStruct_def)
  then have "marshalValue E (BytesBuffer []) (Value ?t (VSlice (Some (map VPrim xs))) True) (Some ?c)
      = (BytesBuffer (bigEndian 2 (length xs mod 65536) @ map of_nat xs), None)"
    by (simp add: marshalValue_Slice del: bigEndian.simps)
  then have "marshalFields E (BytesBuffer []) (bytesStruct xs) (enterValue (Some c)) 0
      = (BytesBuffer (bigEndian 2 (length xs mod 65536) @ map of_nat xs), None)"
    apply (subst marshalFields.simps)
    apply (simp add: bytesStruct_def NumField_def del: bigEndian.simps)
    apply (subst marshalFields.simps)
    apply (simp add: NumField_def)
    done
  then show ?thesis using assms
    by (simp add: bytesStruct_def marshalValue_Struct marshalStruct.simps isUnion_def
        del: bigEndian.simps)
qed

theorem length_prefix_wraps_witness:
  "(TSlice [] False uint8Type = TSlice [] False uint8Type \<and> kind uint8Type = Uint8 \<and>
      \<not> customCodec uint8Type \<and> TSlice [] False uint8Type \<noteq> rawBytesType \<and>
      65536 \<le> length (replicate 65536 (0::nat))) \<and>
   MarshalToBytes exampleEnv
       [(TSlice [] False uint8Type, VSlice (Some (map VPrim (replicate 65536 0))))]
     = Inr (bigEndian 2 (length (replicate 65536 (0::nat)) mod 65536)
            @ map of_nat (replicate 65536 0)) \<and>
   (sized (options (sizedCtx (Type (bytesStruct (replicate 65536 0))))) \<and>
    \<not> isUnion (Type (bytesStruct (replicate 65536 0))) \<and>
    arrivedFromPointer (sizedCtx (Type (bytesStruct (replicate 65536 0))))
      (bytesStruct (replicate 65536 0)) \<and>
    65536 \<le> length (bigEndian 2 (length (replicate 65536 (0::nat)) mod 65536)
            @ map of_nat (replicate 65536 0) :: byte list)) \<and>
   marshalStruct exampleEnv (BytesBuffer []) (bytesStruct (replicate 65536 0))
       (sizedCtx (Type (bytesStruct (replicate 65536 0))))
     = (BytesBuffer ([] @ bigEndian 2
           (length (bigEndian 2 (length (replicate 65536 (0::nat)) mod 65536)
              @ map of_nat (replicate 65536 0) :: byte list) mod 65536)
         @ bigEndian 2 (length (replicate 65536 (0::nat)) mod 65536)
         @ map of_nat (replicate 65536 0)), None)"
proof -
  let ?xs = "replicate 65536 (0::nat)"
  let ?s = "bytesStruct ?xs"
  let ?ctx = "sizedCtx (Type ?s)"
  let ?payload = "bigEndian 2 (length ?xs mod 65536) @ map of_nat ?xs :: byte list"
  have len: "65536 \<le> length ?xs" by (simp only: length_replicate)
  have h1: "TSlice [] False uint8Type = TSlice [] False uint8Type \<and> kind uint8Type = Uint8 \<and>
      \<not> customCodec uint8Type \<and> TSlice [] False uint8Type \<noteq> rawBytesType \<and>
      65536 \<le> length ?xs"
    using len by (simp add: uint8Type_def rawBytesType_def)
  have pay: "marshalValue exampleEnv (BytesBuffer []) ?s (Some (beginSizedStructCtx ?ctx ?s))
      = (BytesBuffer ?payload, None)"
    by (rule marshalValue_bytesStruct) (simp add: beginSizedStructCtx_def)
  have h2a: "sized (options ?ctx) \<and> \<not> isUnion (Type ?s) \<and> arrivedFromPointer ?ctx ?s"
    by (simp add: sizedCtx_def bytesStruct_def isUnion_def arrivedFromPointer_def)
  have plen: "65536 \<le> length ?payload"
    by (simp only: length_append length_map length_replicate length_bigEndian)
  from length_prefix_wraps [of "TSlice [] False uint8Type" "[]" uint8Type ?xs exampleEnv
      ?ctx ?s ?payload "[]"] h1 h2a pay plen
  show ?thesis by blast
qed

end
